theory Spec2Isabelle
  imports Main
begin

section \<open>The validator module (src/validator/index.ts)\<close>

text \<open>
  The module validates parsed description files against four JSON schemas that are
  registered with an Ajv instance, casts validated values, and loads files. Ajv, the two
  parsers, the file system, the schema documents and the constant \<open>DEFAULT_FORMAT\<close> are
  not part of the module: they are parameters here, collected in an environment record.
  The functions never look into the value they validate, so they are polymorphic in its
  type \<open>'v\<close> (TypeScript: \<open>any\<close>).
\<close>

subsection \<open>Schema names\<close>

text \<open>
  \<open>type Schema = "project.json" | "collection.json" | "url.json" | "blockchain-address.json"\<close>
  is a union of string literals; at run time a schema name is a string.
\<close>

type_synonym Schema = string

definition PROJECT_SCHEMA :: Schema where
  "PROJECT_SCHEMA = ''project.json''"

definition COLLECTION_SCHEMA :: Schema where
  "COLLECTION_SCHEMA = ''collection.json''"

definition URL_SCHEMA :: Schema where
  "URL_SCHEMA = ''url.json''"

definition BLOCKCHAIN_ADDRESS_SCHEMA :: Schema where
  "BLOCKCHAIN_ADDRESS_SCHEMA = ''blockchain-address.json''"

subsection \<open>Ajv: error objects, compiled validators, the registry\<close>

text \<open>
  Of an Ajv error object the module reads \<open>e.params.missingProperty\<close> (a property name,
  or undefined) and \<open>e.message\<close> (\<open>message?: string\<close>). The keyword and the instance
  path are kept to tell errors apart.
\<close>

record ErrorParams =
  missingProperty :: "string option"

record ErrorObject =
  keyword :: string
  instancePath :: string
  params :: ErrorParams
  message :: "string option"

text \<open>
  Calling a compiled validator returns a boolean and leaves the error list in
  \<open>validate.errors\<close> (null, or an array); the call is modelled as returning both. The
  validator is code that Ajv generates: it reads the properties of the value, and an
  exception raised while it runs (a property of the value that is an accessor whose getter
  throws, a proxy) comes out of the call. \<open>ajv.getSchema\<close> compiles a schema when it is
  first asked for, and returns the validator, or undefined, or throws. A call into Ajv
  therefore returns a sum, \<open>Inl\<close> the exception, of a type \<open>'x\<close> of exceptions that the
  collaborators raise.
\<close>

type_synonym ('v, 'x) ValidateFunction = "'v \<Rightarrow> 'x + bool \<times> ErrorObject list option"

type_synonym ('v, 'x) Ajv = "Schema \<Rightarrow> 'x + ('v, 'x) ValidateFunction option"

definition getSchema ::
  "('v, 'x) Ajv \<Rightarrow> Schema \<Rightarrow> 'x + ('v, 'x) ValidateFunction option" where
  "getSchema a schemaName = a schemaName"

subsection \<open>JavaScript operators on optional strings and plain objects\<close>

text \<open>\<open>a || b\<close> where \<open>a\<close> is a string or undefined: the empty string is falsy.\<close>

definition js_or :: "string option \<Rightarrow> string \<Rightarrow> string" where
  "js_or a b = (case a of None \<Rightarrow> b | Some s \<Rightarrow> if s \<noteq> [] then s else b)"

text \<open>\<open>validate.errors || []\<close>: null gives the empty array, every array is truthy.\<close>

definition errors_or_empty :: "ErrorObject list option \<Rightarrow> ErrorObject list" where
  "errors_or_empty es = (case es of None \<Rightarrow> [] | Some l \<Rightarrow> l)"

text \<open>\<open>a ?? b\<close>.\<close>

definition nullish_or :: "'a option \<Rightarrow> 'a \<Rightarrow> 'a" where
  "nullish_or a b = (case a of None \<Rightarrow> b | Some x \<Rightarrow> x)"

text \<open>
  \<open>Record<string, string>\<close>, created as \<open>{}\<close>: a map from property names to strings.
  The assignment \<open>errors[key] = value\<close> stores an own property, except under the name
  \<open>__proto__\<close>: that name is the prototype accessor of \<open>Object.prototype\<close>, whose setter
  ignores a value that is neither an object nor null, so nothing is stored.
\<close>

type_synonym ErrorMap = "string \<rightharpoonup> string"

definition assign :: "ErrorMap \<Rightarrow> string \<Rightarrow> string \<Rightarrow> ErrorMap" where
  "assign obj key v = (if key = ''__proto__'' then obj else obj(key \<mapsto> v))"

subsection \<open>Exceptions and the console\<close>

text \<open>
  What a call of the module can throw: the \<open>Error\<close> that \<open>safeCastObject\<close> constructs
  with \<open>new Error(message)\<close>, the error of \<open>assertNever\<close>, and an exception raised
  inside a collaborator (Ajv, \<open>readFile\<close>, \<open>JSON.parse\<close>, \<open>YAML.parse\<close>), which the
  module neither catches nor translates: it has no \<open>try\<close>. A function that can throw
  returns a sum, \<open>Inl\<close> the exception; for the async functions \<open>Inl\<close> is the rejection of
  the promise.
\<close>

datatype 'x js_error =
    Error string
  | UnreachableFormat
  | Foreign 'x

text \<open>A call of a collaborator: its exception is propagated as it is.\<close>

definition call :: "'x + 'a \<Rightarrow> 'x js_error + 'a" where
  "call r = (case r of Inl x \<Rightarrow> Inl (Foreign x) | Inr v \<Rightarrow> Inr v)"

text \<open>\<open>console.warn(result.errors)\<close> appends to the console what it is given.\<close>

datatype console_event = Warn ErrorMap

type_synonym Console = "console_event list"

subsection \<open>validateObject\<close>

record ValidationResult =
  valid :: bool
  errors :: ErrorMap

text \<open>
  The loop \<open>for (const e of validate.errors || [])\<close> of \<open>validateObject\<close>, with the
  object \<open>errors\<close> it fills as accumulator.
\<close>

fun enumerate_errors :: "ErrorObject list \<Rightarrow> ErrorMap \<Rightarrow> ErrorMap" where
  "enumerate_errors [] errors' = errors'"
| "enumerate_errors (e # es) errors' =
     (let key = js_or (missingProperty (params e)) ''other'' in
      enumerate_errors es
        (case message e of
           None \<Rightarrow> errors'
         | Some m \<Rightarrow> if key \<noteq> [] \<and> m \<noteq> [] then assign errors' key m else errors'))"

text \<open>The environment: what the module imports and the module-level Ajv instance.\<close>

record ('v, 'x) Env =
  ajv :: "('v, 'x) Ajv"
  readFile :: "string \<Rightarrow> 'x + string"
  JSON_parse :: "string \<Rightarrow> 'x + 'v"
  YAML_parse :: "string \<Rightarrow> 'x + 'v"
  DEFAULT_FORMAT :: string

definition validateObject ::
  "('v, 'x) Env \<Rightarrow> 'v \<Rightarrow> Schema \<Rightarrow> 'x js_error + ValidationResult" where
  "validateObject env obj schemaName =
     (case call (getSchema (ajv env) schemaName) of
        Inl e \<Rightarrow> Inl e
      | Inr None \<Rightarrow>
          Inr \<lparr>valid = False, errors = [''schema'' \<mapsto> ''Schema not found'']\<rparr>
      | Inr (Some validate) \<Rightarrow>
          (case call (validate obj) of
             Inl e \<Rightarrow> Inl e
           | Inr (ok, validate_errors) \<Rightarrow>
               if \<not> ok then
                 Inr \<lparr>valid = False,
                      errors = enumerate_errors (errors_or_empty validate_errors) Map.empty\<rparr>
               else Inr \<lparr>valid = True, errors = Map.empty\<rparr>))"

definition validateProject ::
  "('v, 'x) Env \<Rightarrow> 'v \<Rightarrow> 'x js_error + ValidationResult" where
  "validateProject env obj = validateObject env obj PROJECT_SCHEMA"

definition validateCollection ::
  "('v, 'x) Env \<Rightarrow> 'v \<Rightarrow> 'x js_error + ValidationResult" where
  "validateCollection env obj = validateObject env obj COLLECTION_SCHEMA"

subsection \<open>safeCastObject\<close>

definition safeCastObject ::
  "('v, 'x) Env \<Rightarrow> 'v \<Rightarrow> Schema \<Rightarrow> Console \<Rightarrow> Console \<times> ('x js_error + 'v)" where
  "safeCastObject env obj schemaName console =
     (case validateObject env obj schemaName of
        Inl e \<Rightarrow> (console, Inl e)
      | Inr result \<Rightarrow>
          if \<not> valid result then
            (console @ [Warn (errors result)], Inl (Error (''Invalid '' @ schemaName)))
          else (console, Inr obj))"

definition safeCastProject ::
  "('v, 'x) Env \<Rightarrow> 'v \<Rightarrow> Console \<Rightarrow> Console \<times> ('x js_error + 'v)" where
  "safeCastProject env obj console = safeCastObject env obj PROJECT_SCHEMA console"

definition safeCastCollection ::
  "('v, 'x) Env \<Rightarrow> 'v \<Rightarrow> Console \<Rightarrow> Console \<times> ('x js_error + 'v)" where
  "safeCastCollection env obj console = safeCastObject env obj COLLECTION_SCHEMA console"

subsection \<open>readFileToObject\<close>

text \<open>
  \<open>FileFormat\<close> is declared in types/files.js; the module compares a format with the
  strings \<open>"JSON"\<close> and \<open>"YAML"\<close>, and at run time a format is a string.
\<close>

type_synonym FileFormat = string

text \<open>
  Modelled from the spec: \<open>assertNever\<close> of utils/common.js is not among the sources. The
  spec says of a format outside the two variants that the loader must "fail fatally with
  an unreachable-state error" (UnreachableFormat: "should abort the call immediately").
\<close>

definition assertNever :: "FileFormat \<Rightarrow> 'x js_error + 'v" where
  "assertNever x = Inl UnreachableFormat"

definition readFileToObject ::
  "('v, 'x) Env \<Rightarrow> string \<Rightarrow> FileFormat \<Rightarrow> Schema \<Rightarrow> Console
     \<Rightarrow> Console \<times> ('x js_error + 'v)" where
  "readFileToObject env filename fmt schemaName console =
     (case call (readFile env filename) of
        Inl e \<Rightarrow> (console, Inl e)
      | Inr fileContents \<Rightarrow>
          (case (if fmt = ''JSON'' then call (JSON_parse env fileContents)
                 else if fmt = ''YAML'' then call (YAML_parse env fileContents)
                 else assertNever fmt) of
             Inl e \<Rightarrow> (console, Inl e)
           | Inr obj \<Rightarrow> safeCastObject env obj schemaName console))"

subsection \<open>readProjectFile and readCollectionFile\<close>

record ReadOptions =
  format :: "FileFormat option"

text \<open>\<open>opts?.format\<close>, for \<open>opts?: ReadOptions\<close>.\<close>

definition opts_format :: "ReadOptions option \<Rightarrow> FileFormat option" where
  "opts_format opts = (case opts of None \<Rightarrow> None | Some r \<Rightarrow> format r)"

definition readProjectFile ::
  "('v, 'x) Env \<Rightarrow> string \<Rightarrow> ReadOptions option \<Rightarrow> Console
     \<Rightarrow> Console \<times> ('x js_error + 'v)" where
  "readProjectFile env filename opts console =
     readFileToObject env filename
       (nullish_or (opts_format opts) (DEFAULT_FORMAT env)) PROJECT_SCHEMA console"

definition readCollectionFile ::
  "('v, 'x) Env \<Rightarrow> string \<Rightarrow> ReadOptions option \<Rightarrow> Console
     \<Rightarrow> Console \<times> ('x js_error + 'v)" where
  "readCollectionFile env filename opts console =
     readFileToObject env filename
       (nullish_or (opts_format opts) (DEFAULT_FORMAT env)) COLLECTION_SCHEMA console"

subsection \<open>How the loop files an error\<close>

text \<open>
  The key the loop computes for an error, whether the error passes the test on
  \<open>e.message\<close>, and the errors of a list that are filed under a given key, in the order
  of the list.
\<close>

definition error_key :: "ErrorObject \<Rightarrow> string" where
  "error_key e = js_or (missingProperty (params e)) ''other''"

definition has_message :: "ErrorObject \<Rightarrow> bool" where
  "has_message e = (case message e of None \<Rightarrow> False | Some m \<Rightarrow> m \<noteq> [])"

definition recorded_under :: "string \<Rightarrow> ErrorObject list \<Rightarrow> ErrorObject list" where
  "recorded_under k es = filter (\<lambda>e. error_key e = k \<and> has_message e) es"

text \<open>An error that leaves an entry in the map.\<close>

definition recordable :: "ErrorObject \<Rightarrow> bool" where
  "recordable e = (has_message e \<and> error_key e \<noteq> ''__proto__'')"

text \<open>A message of the form \<open>"Invalid ..."\<close>.\<close>

definition invalid_form :: "string \<Rightarrow> bool" where
  "invalid_form m = (take 8 m = ''Invalid '')"

subsection \<open>Sample data for the concrete evaluations\<close>

text \<open>
  Generic values (numbers are integers here; no function of the module looks at them),
  exception objects of the collaborators with their class name and message, and a small
  compiled validator in the manner of Ajv with \<open>allErrors: true\<close>: the value must be an
  object with a required string \<open>name\<close> and, when present, an integer \<open>version\<close> and an
  array \<open>projects\<close>.
\<close>

datatype json =
    JNull
  | JBool bool
  | JNumber int
  | JString string
  | JArray "json list"
  | JObject "(string \<times> json) list"

datatype exn = Exn (exn_name: string) (exn_message: string)

definition required_error :: "string \<Rightarrow> ErrorObject" where
  "required_error p =
     \<lparr>keyword = ''required'', instancePath = [],
      params = \<lparr>missingProperty = Some p\<rparr>,
      message = Some (''must have required property '' @ p)\<rparr>"

definition type_error :: "string \<Rightarrow> string \<Rightarrow> ErrorObject" where
  "type_error path t =
     \<lparr>keyword = ''type'', instancePath = path,
      params = \<lparr>missingProperty = None\<rparr>,
      message = Some (''must be '' @ t)\<rparr>"

definition check_name :: "(string \<times> json) list \<Rightarrow> ErrorObject list" where
  "check_name props =
     (case map_of props ''name'' of
        None \<Rightarrow> [required_error ''name'']
      | Some (JString s) \<Rightarrow> []
      | Some other \<Rightarrow> [type_error ''/name'' ''string''])"

definition check_version :: "(string \<times> json) list \<Rightarrow> ErrorObject list" where
  "check_version props =
     (case map_of props ''version'' of
        None \<Rightarrow> []
      | Some (JNumber n) \<Rightarrow> []
      | Some other \<Rightarrow> [type_error ''/version'' ''integer''])"

definition check_projects :: "(string \<times> json) list \<Rightarrow> ErrorObject list" where
  "check_projects props =
     (case map_of props ''projects'' of
        None \<Rightarrow> []
      | Some (JArray l) \<Rightarrow> []
      | Some other \<Rightarrow> [type_error ''/projects'' ''array''])"

definition sample_validate :: "(json, exn) ValidateFunction" where
  "sample_validate obj =
     (case obj of
        JObject props \<Rightarrow>
          (let es = check_name props @ check_version props @ check_projects props
           in if es = [] then Inr (True, None) else Inr (False, Some es))
      | other \<Rightarrow> Inr (False, Some [type_error [] ''object'']))"

text \<open>
  A file system with four files, and parsers that know a few texts each. The text of
  \<open>escape.yaml\<close> is a double-quoted scalar with the escape \<open>\q\<close>, which YAML does not
  have; the yaml library reports it with a message that begins \<open>Invalid escape sequence\<close>.
\<close>

definition escape_text :: string where
  "escape_text = [CHR 0x22, CHR 0x5C, CHR ''q'', CHR 0x22]"

definition escape_exn :: exn where
  "escape_exn =
     Exn ''YAMLParseError'' (''Invalid escape sequence '' @ [CHR 0x5C, CHR ''q''])"

definition sample_readFile :: "string \<Rightarrow> exn + string" where
  "sample_readFile filename =
     (if filename = ''project.yaml'' then Inr ''name: x''
      else if filename = ''broken.yaml'' then Inr ''name: [''
      else if filename = ''unnamed.yaml'' then Inr ''{}''
      else if filename = ''escape.yaml'' then Inr escape_text
      else Inl (Exn ''Error'' ''ENOENT: no such file or directory''))"

definition sample_JSON_parse :: "string \<Rightarrow> exn + json" where
  "sample_JSON_parse s =
     (if s = ''null'' then Inr JNull
      else if s = ''{}'' then Inr (JObject [])
      else if s = ''[]'' then Inr (JArray [])
      else Inl (Exn ''SyntaxError'' ''Unexpected token in JSON''))"

definition sample_YAML_parse :: "string \<Rightarrow> exn + json" where
  "sample_YAML_parse s =
     (if s = ''name: x'' then Inr (JObject [(''name'', JString ''x'')])
      else if s = ''{}'' then Inr (JObject [])
      else if s = ''~'' then Inr JNull
      else if s = escape_text then Inl escape_exn
      else Inl (Exn ''YAMLParseError'' ''Flow sequence must end with a ]''))"

definition sample_ajv :: "(json, exn) Ajv" where
  "sample_ajv schemaName =
     (if schemaName = PROJECT_SCHEMA \<or> schemaName = COLLECTION_SCHEMA
      then Inr (Some sample_validate) else Inr None)"

definition sample_env :: "(json, exn) Env" where
  "sample_env =
     \<lparr>ajv = sample_ajv, readFile = sample_readFile, JSON_parse = sample_JSON_parse,
      YAML_parse = sample_YAML_parse, DEFAULT_FORMAT = ''YAML''\<rparr>"

text \<open>Sample values.\<close>

definition two_type_violations :: json where
  "two_type_violations = JObject [(''version'', JString ''1''), (''projects'', JNull)]"

definition named_project :: json where
  "named_project = JObject [(''name'', JString ''x'')]"

text \<open>
  A value that is not parsed data: \<open>Accessor p m\<close> is the object
  \<open>{ get p() { throw new Error(m) } }\<close>. The validators take \<open>obj: any\<close>, so a caller
  can pass it. The validator that Ajv generates for a schema with the required property
  \<open>name\<close> reads \<open>obj.name\<close>; on this object the read runs the getter.
\<close>

datatype accessor_object = Accessor string string

definition accessor_validate :: "(accessor_object, exn) ValidateFunction" where
  "accessor_validate obj =
     (case obj of
        Accessor p m \<Rightarrow>
          if p = ''name'' then Inl (Exn ''Error'' m)
          else Inr (False, Some [required_error ''name'']))"

definition accessor_ajv :: "(accessor_object, exn) Ajv" where
  "accessor_ajv schemaName =
     (if schemaName = PROJECT_SCHEMA \<or> schemaName = COLLECTION_SCHEMA
      then Inr (Some accessor_validate) else Inr None)"

definition accessor_env :: "(accessor_object, exn) Env" where
  "accessor_env =
     \<lparr>ajv = accessor_ajv, readFile = sample_readFile,
      JSON_parse = (\<lambda>s. Inl (Exn ''SyntaxError'' ''Unexpected token in JSON'')),
      YAML_parse = (\<lambda>s. Inl (Exn ''YAMLParseError'' ''Flow sequence must end with a ]'')),
      DEFAULT_FORMAT = ''YAML''\<rparr>"

section \<open>The loop of validateObject\<close>

lemma error_key_nonempty: "error_key e \<noteq> []"
  by (simp add: error_key_def js_or_def split: option.splits)

lemma enumerate_errors_step:
  "enumerate_errors (e # es) acc =
     enumerate_errors es
       (if has_message e then assign acc (error_key e) (the (message e)) else acc)"
  using error_key_nonempty [of e]
  by (simp add: has_message_def error_key_def Let_def split: option.splits)

text \<open>
  The entry of a key after the loop: the message of the last error filed under the key,
  and what the object held before when there is none.
\<close>

lemma enumerate_errors_lookup:
  "enumerate_errors es acc k =
     (if k = ''__proto__'' then acc k
      else case recorded_under k es of
             [] \<Rightarrow> acc k
           | x # xs \<Rightarrow> message (last (x # xs)))"
proof (induction es arbitrary: acc)
  case Nil
  show ?case by (simp add: recorded_under_def)
next
  case (Cons e es)
  show ?case
    unfolding enumerate_errors_step Cons.IH
    by (auto simp: recorded_under_def assign_def has_message_def
        split: list.splits option.splits)
qed

lemma recorded_under_last:
  assumes "recorded_under k es = x # xs"
  shows "\<exists>m. m \<noteq> [] \<and> message (last (x # xs)) = Some m"
proof -
  have "last (x # xs) \<in> set (recorded_under k es)"
    using assms by (metis last_in_set list.distinct(1))
  then have "has_message (last (x # xs))"
    by (simp add: recorded_under_def)
  then show ?thesis
    by (auto simp: has_message_def split: option.splits)
qed

lemma enumerate_errors_recordable:
  assumes "e \<in> set es" and "recordable e"
  shows "enumerate_errors es acc (error_key e) \<noteq> None"
proof -
  from assms have "e \<in> set (recorded_under (error_key e) es)"
    by (simp add: recorded_under_def recordable_def)
  then obtain x xs where xs: "recorded_under (error_key e) es = x # xs"
    by (cases "recorded_under (error_key e) es") auto
  from recorded_under_last [OF xs] assms(2) show ?thesis
    by (auto simp: enumerate_errors_lookup xs recordable_def)
qed

section \<open>The outcomes of validateObject\<close>

lemma validateObject_lookup_throws:
  assumes "getSchema (ajv env) schemaName = Inl x"
  shows "validateObject env obj schemaName = Inl (Foreign x)"
  using assms by (simp add: validateObject_def call_def)

lemma validateObject_unregistered:
  assumes "getSchema (ajv env) schemaName = Inr None"
  shows "validateObject env obj schemaName =
           Inr \<lparr>valid = False, errors = [''schema'' \<mapsto> ''Schema not found'']\<rparr>"
  using assms by (simp add: validateObject_def call_def)

lemma validateObject_validator_throws:
  assumes "getSchema (ajv env) schemaName = Inr (Some validate)"
    and "validate obj = Inl x"
  shows "validateObject env obj schemaName = Inl (Foreign x)"
  using assms by (simp add: validateObject_def call_def)

lemma validateObject_rejected:
  assumes "getSchema (ajv env) schemaName = Inr (Some validate)"
    and "validate obj = Inr (False, reported)"
  shows "validateObject env obj schemaName =
           Inr \<lparr>valid = False,
                errors = enumerate_errors (errors_or_empty reported) Map.empty\<rparr>"
  using assms by (simp add: validateObject_def call_def)

lemma validateObject_accepted:
  assumes "getSchema (ajv env) schemaName = Inr (Some validate)"
    and "validate obj = Inr (True, reported)"
  shows "validateObject env obj schemaName = Inr \<lparr>valid = True, errors = Map.empty\<rparr>"
  using assms by (simp add: validateObject_def call_def)

section \<open>The loader after a successful read\<close>

lemma readFileToObject_read:
  assumes "readFile env filename = Inr fileContents"
  shows "readFileToObject env filename fmt schemaName console =
           (case (if fmt = ''JSON'' then call (JSON_parse env fileContents)
                  else if fmt = ''YAML'' then call (YAML_parse env fileContents)
                  else assertNever fmt) of
              Inl e \<Rightarrow> (console, Inl e)
            | Inr obj \<Rightarrow> safeCastObject env obj schemaName console)"
  using assms by (simp add: readFileToObject_def call_def)

section \<open>The sample environment\<close>

lemma sample_getSchema_project:
  "getSchema (ajv sample_env) PROJECT_SCHEMA = Inr (Some sample_validate)"
  by (simp add: getSchema_def sample_env_def sample_ajv_def)

lemma sample_getSchema_collection:
  "getSchema (ajv sample_env) COLLECTION_SCHEMA = Inr (Some sample_validate)"
  by (simp add: getSchema_def sample_env_def sample_ajv_def)

lemma sample_getSchema_url: "getSchema (ajv sample_env) URL_SCHEMA = Inr None"
  by (simp add: getSchema_def sample_env_def sample_ajv_def PROJECT_SCHEMA_def
      COLLECTION_SCHEMA_def URL_SCHEMA_def)

lemma sample_two_type_violations:
  "sample_validate two_type_violations =
     Inr (False, Some [required_error ''name'', type_error ''/version'' ''integer'',
                       type_error ''/projects'' ''array''])"
  by (simp add: sample_validate_def two_type_violations_def check_name_def
      check_version_def check_projects_def)

lemma sample_JNull:
  "sample_validate JNull = Inr (False, Some [type_error [] ''object''])"
  by (simp add: sample_validate_def)

lemma sample_named_project: "sample_validate named_project = Inr (True, None)"
  by (simp add: sample_validate_def named_project_def check_name_def check_version_def
      check_projects_def)

lemma sample_JNull_project:
  "validateObject sample_env JNull PROJECT_SCHEMA =
     Inr \<lparr>valid = False,
          errors = enumerate_errors [type_error [] ''object''] Map.empty\<rparr>"
  by (simp add: validateObject_rejected [OF sample_getSchema_project sample_JNull]
      errors_or_empty_def)

lemma sample_JNull_collection:
  "validateObject sample_env JNull COLLECTION_SCHEMA =
     Inr \<lparr>valid = False,
          errors = enumerate_errors [type_error [] ''object''] Map.empty\<rparr>"
  by (simp add: validateObject_rejected [OF sample_getSchema_collection sample_JNull]
      errors_or_empty_def)

lemma sample_named_project_valid:
  "validateObject sample_env named_project PROJECT_SCHEMA =
     Inr \<lparr>valid = True, errors = Map.empty\<rparr>"
  by (rule validateObject_accepted [OF sample_getSchema_project sample_named_project])

lemma sample_readFile_project: "readFile sample_env ''project.yaml'' = Inr ''name: x''"
  by (simp add: sample_env_def sample_readFile_def)

lemma sample_readFile_broken: "readFile sample_env ''broken.yaml'' = Inr ''name: [''"
  by (simp add: sample_env_def sample_readFile_def)

lemma sample_readFile_escape: "readFile sample_env ''escape.yaml'' = Inr escape_text"
  by (simp add: sample_env_def sample_readFile_def)

lemma sample_YAML_project: "YAML_parse sample_env ''name: x'' = Inr named_project"
  by (simp add: sample_env_def sample_YAML_parse_def named_project_def)

lemma sample_JSON_project:
  "JSON_parse sample_env ''name: x'' = Inl (Exn ''SyntaxError'' ''Unexpected token in JSON'')"
  by (simp add: sample_env_def sample_JSON_parse_def)

lemma sample_YAML_broken:
  "YAML_parse sample_env ''name: [''
     = Inl (Exn ''YAMLParseError'' ''Flow sequence must end with a ]'')"
  by (simp add: sample_env_def sample_YAML_parse_def escape_text_def)

lemma sample_YAML_escape: "YAML_parse sample_env escape_text = Inl escape_exn"
  by (simp add: sample_env_def sample_YAML_parse_def escape_text_def)

lemma sample_DEFAULT_FORMAT: "DEFAULT_FORMAT sample_env = ''YAML''"
  by (simp add: sample_env_def)

lemma sample_safeCast_named_project:
  "safeCastObject sample_env named_project PROJECT_SCHEMA console = (console, Inr named_project)"
  by (simp add: safeCastObject_def sample_named_project_valid)

lemma sample_readProjectFile_yaml:
  "readProjectFile sample_env ''project.yaml'' (Some \<lparr>format = Some ''YAML''\<rparr>) []
     = ([], Inr named_project)"
  by (simp add: readProjectFile_def nullish_or_def opts_format_def
      readFileToObject_read [OF sample_readFile_project] call_def sample_YAML_project
      sample_safeCast_named_project)

lemma accessor_getSchema_project:
  "getSchema (ajv accessor_env) PROJECT_SCHEMA = Inr (Some accessor_validate)"
  by (simp add: getSchema_def accessor_env_def accessor_ajv_def)

lemma accessor_getter_throws:
  "accessor_validate (Accessor ''name'' ''boom'') = Inl (Exn ''Error'' ''boom'')"
  by (simp add: accessor_validate_def)

lemma accessor_name_throws:
  "validateObject accessor_env (Accessor ''name'' ''boom'') PROJECT_SCHEMA
     = Inl (Foreign (Exn ''Error'' ''boom''))"
  by (simp add: validateObject_def call_def accessor_getSchema_project
      accessor_getter_throws)

section \<open>Properties\<close>

text \<open>
  C1. When the compiled validator rejects the value, the errors map of validateObject is
  built from the validator's error list in order: for every key, the entry is the message
  of the last error of the list that is filed under the key and carries a non-empty
  message, and there is no entry when the list has no such error (later errors overwrite
  earlier ones; errors without a message are not recorded; an assignment to
  \<open>__proto__\<close> stores nothing). An error is filed under its missing-property name when
  it has one (a non-empty string) and under \<open>other\<close> when it has none. In particular,
  with two or more violations filed under \<open>other\<close>, the entry of \<open>other\<close> is the
  message of the last of them, and it is the one entry of that key.
\<close>

theorem validateObject_error_map:
  assumes "getSchema (ajv env) schemaName = Inr (Some validate)"
    and "validate obj = Inr (False, reported)"
  shows "(\<exists>r. validateObject env obj schemaName = Inr r
            \<and> (\<forall>k. errors r k =
                  (if k = ''__proto__'' then None
                   else case recorded_under k (errors_or_empty reported) of
                          [] \<Rightarrow> None
                        | x # xs \<Rightarrow> message (last (x # xs))))
            \<and> (2 \<le> length (recorded_under ''other'' (errors_or_empty reported)) \<longrightarrow>
                  (\<exists>m. m \<noteq> [] \<and>
                       message (last (recorded_under ''other'' (errors_or_empty reported)))
                         = Some m \<and>
                       errors r ''other'' = Some m)))
       \<and> (\<forall>e p. missingProperty (params e) = Some p \<and> p \<noteq> [] \<longrightarrow> error_key e = p)
       \<and> (\<forall>e. missingProperty (params e) = None \<longrightarrow> error_key e = ''other'')"
proof (intro conjI allI impI)
  let ?r = "\<lparr>valid = False,
             errors = enumerate_errors (errors_or_empty reported) Map.empty\<rparr>"
  have res: "validateObject env obj schemaName = Inr ?r"
    by (rule validateObject_rejected [OF assms])
  have lookup: "errors ?r k =
            (if k = ''__proto__'' then None
             else case recorded_under k (errors_or_empty reported) of
                    [] \<Rightarrow> None
                  | x # xs \<Rightarrow> message (last (x # xs)))" for k
    by (simp add: enumerate_errors_lookup)
  have other: "\<exists>m. m \<noteq> [] \<and>
          message (last (recorded_under ''other'' (errors_or_empty reported))) = Some m \<and>
          errors ?r ''other'' = Some m"
    if "2 \<le> length (recorded_under ''other'' (errors_or_empty reported))"
  proof -
    from that obtain x xs
      where xs: "recorded_under ''other'' (errors_or_empty reported) = x # xs"
      by (cases "recorded_under ''other'' (errors_or_empty reported)") auto
    from recorded_under_last [OF xs]
    obtain m where m: "m \<noteq> []" "message (last (x # xs)) = Some m"
      by blast
    have "errors ?r ''other'' = message (last (x # xs))"
      by (simp add: enumerate_errors_lookup xs)
    with m xs show ?thesis
      by simp
  qed
  from res lookup other
  show "\<exists>r. validateObject env obj schemaName = Inr r
            \<and> (\<forall>k. errors r k =
                  (if k = ''__proto__'' then None
                   else case recorded_under k (errors_or_empty reported) of
                          [] \<Rightarrow> None
                        | x # xs \<Rightarrow> message (last (x # xs))))
            \<and> (2 \<le> length (recorded_under ''other'' (errors_or_empty reported)) \<longrightarrow>
                  (\<exists>m. m \<noteq> [] \<and>
                       message (last (recorded_under ''other'' (errors_or_empty reported)))
                         = Some m \<and>
                       errors r ''other'' = Some m))"
    by blast
next
  fix e :: ErrorObject and p
  assume "missingProperty (params e) = Some p \<and> p \<noteq> []"
  then show "error_key e = p"
    by (simp add: error_key_def js_or_def)
next
  fix e :: ErrorObject
  assume "missingProperty (params e) = None"
  then show "error_key e = ''other''"
    by (simp add: error_key_def js_or_def)
qed

theorem validateObject_error_map_witness:
  "getSchema (ajv sample_env) PROJECT_SCHEMA = Inr (Some sample_validate)
   \<and> sample_validate two_type_violations =
       Inr (False, Some [required_error ''name'', type_error ''/version'' ''integer'',
                         type_error ''/projects'' ''array''])
   \<and> length (recorded_under ''other''
        [required_error ''name'', type_error ''/version'' ''integer'',
         type_error ''/projects'' ''array'']) = 2
   \<and> (\<exists>r. validateObject sample_env two_type_violations PROJECT_SCHEMA = Inr r
         \<and> errors r ''other'' = Some ''must be array''
         \<and> errors r ''name'' = Some ''must have required property name''
         \<and> errors r ''version'' = None)"
proof -
  from validateObject_error_map [OF sample_getSchema_project sample_two_type_violations]
  obtain r where r: "validateObject sample_env two_type_violations PROJECT_SCHEMA = Inr r"
    and lookup: "\<And>k. errors r k =
          (if k = ''__proto__'' then None
           else case recorded_under k
                  (errors_or_empty
                    (Some [required_error ''name'', type_error ''/version'' ''integer'',
                           type_error ''/projects'' ''array''])) of
                  [] \<Rightarrow> None
                | x # xs \<Rightarrow> message (last (x # xs)))"
    by blast
  have "errors r ''other'' = Some ''must be array''"
    and "errors r ''name'' = Some ''must have required property name''"
    and "errors r ''version'' = None"
    by (simp_all add: lookup errors_or_empty_def recorded_under_def error_key_def
        has_message_def js_or_def required_error_def type_error_def)
  moreover have "length (recorded_under ''other''
        [required_error ''name'', type_error ''/version'' ''integer'',
         type_error ''/projects'' ''array'']) = 2"
    by (simp add: recorded_under_def error_key_def has_message_def js_or_def
        required_error_def type_error_def)
  ultimately show ?thesis
    using r sample_getSchema_project sample_two_type_violations by blast
qed

text \<open>
  C2. The Ajv instance of the module is built with \<open>{ allErrors: true }\<close> and the
  messages left on: a validator it compiles, when it rejects a value, reports at least one
  error, and every error carries its message. For a validator that, on rejecting the
  value, reports at least one error that leaves an entry (a non-empty message, under a
  key other than \<open>__proto__\<close>), every result that validateObject returns has \<open>valid\<close>
  true if and only if its errors map is empty; validateProject and validateCollection
  return the results of validateObject.
\<close>

theorem validateObject_valid_iff_no_errors:
  assumes "validateObject env obj schemaName = Inr r"
    and "\<And>validate reported.
           getSchema (ajv env) schemaName = Inr (Some validate) \<Longrightarrow>
           validate obj = Inr (False, reported) \<Longrightarrow>
           \<exists>e \<in> set (errors_or_empty reported). recordable e"
  shows "(valid r \<longleftrightarrow> dom (errors r) = {})
       \<and> (schemaName = PROJECT_SCHEMA \<longrightarrow> validateProject env obj = Inr r)
       \<and> (schemaName = COLLECTION_SCHEMA \<longrightarrow> validateCollection env obj = Inr r)"
proof -
  have "valid r \<longleftrightarrow> dom (errors r) = {}"
  proof (cases "getSchema (ajv env) schemaName")
    case (Inl x)
    with assms(1) show ?thesis
      by (simp add: validateObject_lookup_throws)
  next
    case (Inr found)
    show ?thesis
    proof (cases found)
      case None
      with Inr assms(1) show ?thesis
        by (auto simp: validateObject_unregistered)
    next
      case (Some validate)
      with Inr have reg: "getSchema (ajv env) schemaName = Inr (Some validate)"
        by simp
      show ?thesis
      proof (cases "validate obj")
        case (Inl x)
        with assms(1) show ?thesis
          by (simp add: validateObject_validator_throws [OF reg])
      next
        case (Inr outcome)
        obtain ok reported where outcome: "outcome = (ok, reported)"
          by (cases outcome)
        show ?thesis
        proof (cases ok)
          case True
          with Inr outcome assms(1) show ?thesis
            by (auto simp: validateObject_accepted [OF reg])
        next
          case False
          with Inr outcome have rej: "validate obj = Inr (False, reported)"
            by simp
          from assms(2) [OF reg rej]
          obtain e where "e \<in> set (errors_or_empty reported)" "recordable e"
            by blast
          then have
            "enumerate_errors (errors_or_empty reported) Map.empty (error_key e) \<noteq> None"
            by (rule enumerate_errors_recordable)
          then have "dom (enumerate_errors (errors_or_empty reported) Map.empty) \<noteq> {}"
            by auto
          with assms(1) show ?thesis
            by (auto simp: validateObject_rejected [OF reg rej])
        qed
      qed
    qed
  qed
  with assms(1) show ?thesis
    by (auto simp: validateProject_def validateCollection_def)
qed

theorem validateObject_valid_iff_no_errors_witness:
  "(\<exists>r. validateObject sample_env JNull PROJECT_SCHEMA = Inr r
        \<and> \<not> valid r \<and> dom (errors r) \<noteq> {})
   \<and> (\<exists>r. validateProject sample_env named_project = Inr r
        \<and> valid r \<and> dom (errors r) = {})"
proof -
  have rejecting: "\<exists>e \<in> set (errors_or_empty reported). recordable e"
    if "getSchema (ajv sample_env) PROJECT_SCHEMA = Inr (Some validate)"
      and "validate JNull = Inr (False, reported)"
    for validate reported
  proof -
    from that(1) have "validate = sample_validate"
      by (simp add: sample_getSchema_project)
    with that(2) show ?thesis
      by (auto simp: sample_JNull errors_or_empty_def recordable_def has_message_def
          error_key_def js_or_def type_error_def)
  qed
  have accepting: "\<exists>e \<in> set (errors_or_empty reported). recordable e"
    if "getSchema (ajv sample_env) PROJECT_SCHEMA = Inr (Some validate)"
      and "validate named_project = Inr (False, reported)"
    for validate reported
  proof -
    from that(1) have "validate = sample_validate"
      by (simp add: sample_getSchema_project)
    with that(2) show ?thesis
      by (simp add: sample_named_project)
  qed
  let ?rejected = "\<lparr>valid = False,
                    errors = enumerate_errors [type_error [] ''object''] Map.empty\<rparr>"
  let ?accepted = "\<lparr>valid = True, errors = Map.empty\<rparr>"
  have "(valid ?rejected \<longleftrightarrow> dom (errors ?rejected) = {})
        \<and> (PROJECT_SCHEMA = PROJECT_SCHEMA \<longrightarrow>
             validateProject sample_env JNull = Inr ?rejected)
        \<and> (PROJECT_SCHEMA = COLLECTION_SCHEMA \<longrightarrow>
             validateCollection sample_env JNull = Inr ?rejected)"
  proof (rule validateObject_valid_iff_no_errors [OF sample_JNull_project])
    fix validate reported
    assume "getSchema (ajv sample_env) PROJECT_SCHEMA = Inr (Some validate)"
      and "validate JNull = Inr (False, reported)"
    then show "\<exists>e \<in> set (errors_or_empty reported). recordable e"
      by (rule rejecting)
  qed
  then have "valid ?rejected \<longleftrightarrow> dom (errors ?rejected) = {}"
    by blast
  then have "\<not> valid ?rejected \<and> dom (errors ?rejected) \<noteq> {}"
    by simp
  with sample_JNull_project
  have first: "\<exists>r. validateObject sample_env JNull PROJECT_SCHEMA = Inr r
                 \<and> \<not> valid r \<and> dom (errors r) \<noteq> {}"
    by blast
  have "(valid ?accepted \<longleftrightarrow> dom (errors ?accepted) = {})
        \<and> (PROJECT_SCHEMA = PROJECT_SCHEMA \<longrightarrow>
             validateProject sample_env named_project = Inr ?accepted)
        \<and> (PROJECT_SCHEMA = COLLECTION_SCHEMA \<longrightarrow>
             validateCollection sample_env named_project = Inr ?accepted)"
  proof (rule validateObject_valid_iff_no_errors [OF sample_named_project_valid])
    fix validate reported
    assume "getSchema (ajv sample_env) PROJECT_SCHEMA = Inr (Some validate)"
      and "validate named_project = Inr (False, reported)"
    then show "\<exists>e \<in> set (errors_or_empty reported). recordable e"
      by (rule accepting)
  qed
  then have "validateProject sample_env named_project = Inr ?accepted
             \<and> valid ?accepted \<and> dom (errors ?accepted) = {}"
    by simp
  then have second: "\<exists>r. validateProject sample_env named_project = Inr r
                      \<and> valid r \<and> dom (errors r) = {}"
    by blast
  from first second show ?thesis ..
qed

text \<open>
  C3. When validation fails, safeCastObject first writes the errors map to the console as
  a warning and then throws an \<open>Error\<close> whose message is \<open>"Invalid "\<close> followed by the
  schema name. The thrown error is the same for every value that fails against the
  schema: it carries the schema name and nothing of the errors map. safeCastProject and
  safeCastCollection are safeCastObject at their schema names.
\<close>

theorem safeCastObject_invalid:
  assumes "validateObject env obj schemaName = Inr result"
    and "\<not> valid result"
  shows "safeCastObject env obj schemaName console =
           (console @ [Warn (errors result)], Inl (Error (''Invalid '' @ schemaName)))
       \<and> (\<forall>env' obj' result' console'.
             validateObject env' obj' schemaName = Inr result' \<and> \<not> valid result' \<longrightarrow>
             snd (safeCastObject env' obj' schemaName console')
               = snd (safeCastObject env obj schemaName console))
       \<and> (schemaName = PROJECT_SCHEMA \<longrightarrow>
            safeCastProject env obj console = safeCastObject env obj schemaName console)
       \<and> (schemaName = COLLECTION_SCHEMA \<longrightarrow>
            safeCastCollection env obj console = safeCastObject env obj schemaName console)"
  using assms by (simp add: safeCastObject_def safeCastProject_def safeCastCollection_def)

theorem safeCastObject_invalid_witness:
  "(\<exists>result. validateObject sample_env JNull PROJECT_SCHEMA = Inr result
       \<and> \<not> valid result
       \<and> errors result ''other'' = Some ''must be object''
       \<and> safeCastObject sample_env JNull PROJECT_SCHEMA [] =
           ([Warn (errors result)], Inl (Error ''Invalid project.json'')))
   \<and> safeCastProject sample_env JNull [] = safeCastObject sample_env JNull PROJECT_SCHEMA []"
  using safeCastObject_invalid [OF sample_JNull_project, of "[]"]
  by (simp add: sample_JNull_project PROJECT_SCHEMA_def [symmetric]
      type_error_def js_or_def assign_def)

text \<open>
  C4. With a schema name for which no compiled validator is registered, validateObject
  returns exactly \<open>{valid: false, errors: {schema: "Schema not found"}}\<close>: a returned
  result, not an exception.
\<close>

theorem validateObject_schema_not_found:
  assumes "getSchema (ajv env) schemaName = Inr None"
  shows "validateObject env obj schemaName =
           Inr \<lparr>valid = False, errors = [''schema'' \<mapsto> ''Schema not found'']\<rparr>"
  using assms by (simp add: validateObject_def call_def)

theorem validateObject_schema_not_found_witness:
  "getSchema (ajv sample_env) URL_SCHEMA = Inr None
   \<and> validateObject sample_env JNull URL_SCHEMA =
       Inr \<lparr>valid = False, errors = [''schema'' \<mapsto> ''Schema not found'']\<rparr>"
  using sample_getSchema_url
    validateObject_schema_not_found [OF sample_getSchema_url, of JNull]
  by simp

text \<open>
  C5. When validation succeeds, safeCastObject returns the value it was given, as it is,
  and writes nothing to the console; so do safeCastProject and safeCastCollection.
\<close>

theorem safeCastObject_valid:
  assumes "validateObject env obj schemaName = Inr result"
    and "valid result"
  shows "safeCastObject env obj schemaName console = (console, Inr obj)
       \<and> (schemaName = PROJECT_SCHEMA \<longrightarrow>
            safeCastProject env obj console = (console, Inr obj))
       \<and> (schemaName = COLLECTION_SCHEMA \<longrightarrow>
            safeCastCollection env obj console = (console, Inr obj))"
  using assms by (auto simp: safeCastObject_def safeCastProject_def safeCastCollection_def)

theorem safeCastObject_valid_witness:
  "validateObject sample_env named_project PROJECT_SCHEMA
     = Inr \<lparr>valid = True, errors = Map.empty\<rparr>
   \<and> safeCastObject sample_env named_project PROJECT_SCHEMA [] = ([], Inr named_project)
   \<and> safeCastProject sample_env named_project [] = ([], Inr named_project)"
  using sample_named_project_valid
    safeCastObject_valid [OF sample_named_project_valid, of "[]"]
  by simp

text \<open>
  C6. Once the file is read, the loader dispatches on the format: \<open>"JSON"\<close> hands the
  contents to \<open>JSON.parse\<close>, \<open>"YAML"\<close> hands them to \<open>YAML.parse\<close> (a parser's exception
  is propagated, a parsed value goes to safeCastObject), and every other format reaches
  \<open>assertNever\<close>: the call fails with the unreachable-state error, no parser is asked,
  nothing is validated and nothing is written to the console.
\<close>

theorem readFileToObject_dispatch:
  assumes "readFile env filename = Inr fileContents"
  shows "readFileToObject env filename ''JSON'' schemaName console =
           (case JSON_parse env fileContents of
              Inl x \<Rightarrow> (console, Inl (Foreign x))
            | Inr obj \<Rightarrow> safeCastObject env obj schemaName console)
       \<and> readFileToObject env filename ''YAML'' schemaName console =
           (case YAML_parse env fileContents of
              Inl x \<Rightarrow> (console, Inl (Foreign x))
            | Inr obj \<Rightarrow> safeCastObject env obj schemaName console)
       \<and> (fmt \<noteq> ''JSON'' \<and> fmt \<noteq> ''YAML'' \<longrightarrow>
            readFileToObject env filename fmt schemaName console
              = (console, Inl UnreachableFormat))"
  by (simp add: readFileToObject_read [OF assms] call_def assertNever_def split: sum.splits)

theorem readFileToObject_dispatch_witness:
  "readFile sample_env ''project.yaml'' = Inr ''name: x''
   \<and> readFileToObject sample_env ''project.yaml'' ''YAML'' PROJECT_SCHEMA []
       = ([], Inr named_project)
   \<and> readFileToObject sample_env ''project.yaml'' ''JSON'' PROJECT_SCHEMA []
       = ([], Inl (Foreign (Exn ''SyntaxError'' ''Unexpected token in JSON'')))
   \<and> readFileToObject sample_env ''project.yaml'' ''TOML'' PROJECT_SCHEMA []
       = ([], Inl UnreachableFormat)"
  using readFileToObject_dispatch [OF sample_readFile_project, of PROJECT_SCHEMA "[]" "''TOML''"]
  by (simp add: sample_readFile_project sample_YAML_project sample_JSON_project
      sample_safeCast_named_project)

text \<open>
  C7, as the code has it. The claim says of the error thrown for a malformed file that
  its message is not of the form \<open>"Invalid ..."\<close>. The loader throws what the parser
  threw, with the parser's message: for the file \<open>escape.yaml\<close>, whose text the YAML
  parser rejects, the thrown error is the parser's, and its message begins with
  \<open>Invalid\<close> and a space.
\<close>

theorem readFileToObject_parse_message_invalid_form:
  "readFile sample_env ''escape.yaml'' = Inr escape_text
   \<and> YAML_parse sample_env escape_text = Inl escape_exn
   \<and> readFileToObject sample_env ''escape.yaml'' ''YAML'' PROJECT_SCHEMA []
       = ([], Inl (Foreign escape_exn))
   \<and> invalid_form (exn_message escape_exn)"
  by (simp add: readFileToObject_read [OF sample_readFile_escape] sample_readFile_escape
      sample_YAML_escape call_def invalid_form_def escape_exn_def)

text \<open>
  C7, amended. When the parser of the declared format rejects the contents of the file,
  readFileToObject throws the parser's own exception, as it is, and so with the message
  the parser gave it. No validation has taken place: the console is unchanged and the
  outcome is the same for every registry of validators. The same holds for
  readProjectFile and readCollectionFile at the format they pass on.
\<close>

theorem readFileToObject_parse_failure:
  fixes env :: "('v, 'x) Env"
  assumes "readFile env filename = Inr fileContents"
    and "(fmt = ''JSON'' \<and> JSON_parse env fileContents = Inl x)
         \<or> (fmt = ''YAML'' \<and> YAML_parse env fileContents = Inl x)"
  shows "readFileToObject env filename fmt schemaName console = (console, Inl (Foreign x))
       \<and> (\<forall>a. readFileToObject (env\<lparr>ajv := a\<rparr>) filename fmt schemaName console
                = (console, Inl (Foreign x)))
       \<and> (nullish_or (opts_format opts) (DEFAULT_FORMAT env) = fmt \<longrightarrow>
            readProjectFile env filename opts console = (console, Inl (Foreign x))
            \<and> readCollectionFile env filename opts console = (console, Inl (Foreign x)))"
proof -
  have thrown: "readFileToObject env' filename fmt s console = (console, Inl (Foreign x))"
    if "readFile env' = readFile env" "JSON_parse env' = JSON_parse env"
      "YAML_parse env' = YAML_parse env" for env' :: "('v, 'x) Env" and s
  proof -
    have "readFile env' filename = Inr fileContents"
      using assms(1) that(1) by simp
    from readFileToObject_read [OF this] assms(2) that(2,3) show ?thesis
      by (auto simp: call_def)
  qed
  have here: "readFileToObject env filename fmt s console = (console, Inl (Foreign x))" for s
    by (rule thrown) simp_all
  have "readFileToObject (env\<lparr>ajv := a\<rparr>) filename fmt schemaName console
          = (console, Inl (Foreign x))" for a
    by (rule thrown) simp_all
  with here show ?thesis
    by (simp add: readProjectFile_def readCollectionFile_def)
qed

theorem readFileToObject_parse_failure_witness:
  "readFile sample_env ''broken.yaml'' = Inr ''name: [''
   \<and> YAML_parse sample_env ''name: [''
       = Inl (Exn ''YAMLParseError'' ''Flow sequence must end with a ]'')
   \<and> readFileToObject sample_env ''broken.yaml'' ''YAML'' PROJECT_SCHEMA []
       = ([], Inl (Foreign (Exn ''YAMLParseError'' ''Flow sequence must end with a ]'')))
   \<and> readProjectFile sample_env ''broken.yaml'' None []
       = ([], Inl (Foreign (Exn ''YAMLParseError'' ''Flow sequence must end with a ]'')))"
proof -
  have fails:
    "(''YAML'' = ''JSON''
        \<and> JSON_parse sample_env ''name: [''
            = Inl (Exn ''YAMLParseError'' ''Flow sequence must end with a ]''))
     \<or> (''YAML'' = ''YAML''
        \<and> YAML_parse sample_env ''name: [''
            = Inl (Exn ''YAMLParseError'' ''Flow sequence must end with a ]''))"
    by (simp add: sample_YAML_broken)
  from readFileToObject_parse_failure [OF sample_readFile_broken fails,
      of PROJECT_SCHEMA "[]" None]
  show ?thesis
    by (simp add: sample_readFile_broken sample_YAML_broken sample_DEFAULT_FORMAT
        nullish_or_def opts_format_def)
qed

text \<open>
  C8, as the code has it. The claim says that the validate functions never throw, for a
  value of any type. The calls \<open>ajv.getSchema(schemaName)\<close> and \<open>validate(obj)\<close> are not
  guarded: for the object whose property \<open>name\<close> is an accessor with a throwing getter,
  the validator throws while it reads the property, and validateProject throws with it.
\<close>

theorem validateProject_throws:
  "validateProject accessor_env (Accessor ''name'' ''boom'')
     = Inl (Foreign (Exn ''Error'' ''boom''))"
  by (simp add: validateProject_def accessor_name_throws)

text \<open>
  C8, amended. validateObject, validateProject and validateCollection throw nothing of
  their own. Whenever the schema lookup and the compiled validator return, for a value of
  any type, the function returns a ValidationResult, and both failures are in it:
  \<open>valid\<close> is false when no validator is registered under the name and when the
  validator rejects the value, and true when the validator accepts it. An exception
  raised inside Ajv, by the lookup or by the validator as it reads the value, is not
  caught: the function throws that exception.
\<close>

theorem validate_failure_in_result:
  "(getSchema (ajv env) schemaName = Inr None \<longrightarrow>
      (\<exists>r. validateObject env obj schemaName = Inr r \<and> \<not> valid r))
   \<and> (\<forall>validate ok reported.
         getSchema (ajv env) schemaName = Inr (Some validate)
           \<and> validate obj = Inr (ok, reported) \<longrightarrow>
         (\<exists>r. validateObject env obj schemaName = Inr r \<and> valid r = ok))
   \<and> (\<forall>x. getSchema (ajv env) schemaName = Inl x \<longrightarrow>
         validateObject env obj schemaName = Inl (Foreign x))
   \<and> (\<forall>validate x.
         getSchema (ajv env) schemaName = Inr (Some validate) \<and> validate obj = Inl x \<longrightarrow>
         validateObject env obj schemaName = Inl (Foreign x))
   \<and> (\<forall>m. validateObject env obj schemaName \<noteq> Inl (Error m))
   \<and> validateObject env obj schemaName \<noteq> Inl UnreachableFormat
   \<and> validateProject env obj = validateObject env obj PROJECT_SCHEMA
   \<and> validateCollection env obj = validateObject env obj COLLECTION_SCHEMA"
proof (intro conjI allI impI)
  assume "getSchema (ajv env) schemaName = Inr None"
  then show "\<exists>r. validateObject env obj schemaName = Inr r \<and> \<not> valid r"
    by (simp add: validateObject_unregistered)
next
  fix validate ok reported
  assume "getSchema (ajv env) schemaName = Inr (Some validate)
            \<and> validate obj = Inr (ok, reported)"
  then show "\<exists>r. validateObject env obj schemaName = Inr r \<and> valid r = ok"
    by (cases ok) (simp_all add: validateObject_accepted validateObject_rejected)
next
  fix x
  assume "getSchema (ajv env) schemaName = Inl x"
  then show "validateObject env obj schemaName = Inl (Foreign x)"
    by (rule validateObject_lookup_throws)
next
  fix validate x
  assume "getSchema (ajv env) schemaName = Inr (Some validate) \<and> validate obj = Inl x"
  then show "validateObject env obj schemaName = Inl (Foreign x)"
    by (simp add: validateObject_validator_throws)
next
  fix m
  show "validateObject env obj schemaName \<noteq> Inl (Error m)"
    by (auto simp: validateObject_def call_def split: sum.splits option.splits prod.splits)
next
  show "validateObject env obj schemaName \<noteq> Inl UnreachableFormat"
    by (auto simp: validateObject_def call_def split: sum.splits option.splits prod.splits)
next
  show "validateProject env obj = validateObject env obj PROJECT_SCHEMA"
    by (simp add: validateProject_def)
next
  show "validateCollection env obj = validateObject env obj COLLECTION_SCHEMA"
    by (simp add: validateCollection_def)
qed

theorem validate_failure_in_result_witness:
  "(\<exists>r. validateObject sample_env JNull URL_SCHEMA = Inr r \<and> \<not> valid r)
   \<and> (\<exists>r. validateProject sample_env JNull = Inr r \<and> \<not> valid r)
   \<and> (\<exists>r. validateProject sample_env named_project = Inr r \<and> valid r)
   \<and> validateProject accessor_env (Accessor ''name'' ''boom'')
       = Inl (Foreign (Exn ''Error'' ''boom''))"
proof -
  have unregistered: "\<exists>r. validateObject sample_env JNull URL_SCHEMA = Inr r \<and> \<not> valid r"
    by (rule validate_failure_in_result [of sample_env URL_SCHEMA JNull,
          THEN conjunct1, rule_format, OF sample_getSchema_url])
  have "\<exists>r. validateObject sample_env JNull PROJECT_SCHEMA = Inr r \<and> valid r = False"
    using validate_failure_in_result [of sample_env PROJECT_SCHEMA JNull,
        THEN conjunct2, THEN conjunct1, rule_format,
        of sample_validate False "Some [type_error [] ''object'']"]
    by (simp add: sample_getSchema_project sample_JNull)
  then have rejected: "\<exists>r. validateProject sample_env JNull = Inr r \<and> \<not> valid r"
    by (simp add: validateProject_def)
  have "\<exists>r. validateObject sample_env named_project PROJECT_SCHEMA = Inr r \<and> valid r = True"
    using validate_failure_in_result [of sample_env PROJECT_SCHEMA named_project,
        THEN conjunct2, THEN conjunct1, rule_format, of sample_validate True None]
    by (simp add: sample_getSchema_project sample_named_project)
  then have accepted: "\<exists>r. validateProject sample_env named_project = Inr r \<and> valid r"
    by (simp add: validateProject_def)
  have "validateObject accessor_env (Accessor ''name'' ''boom'') PROJECT_SCHEMA
          = Inl (Foreign (Exn ''Error'' ''boom''))"
    using validate_failure_in_result [of accessor_env PROJECT_SCHEMA
        "Accessor ''name'' ''boom''",
        THEN conjunct2, THEN conjunct2, THEN conjunct2, THEN conjunct1, rule_format,
        of accessor_validate "Exn ''Error'' ''boom''"]
    by (simp add: accessor_getSchema_project accessor_getter_throws)
  then have thrown: "validateProject accessor_env (Accessor ''name'' ''boom'')
                       = Inl (Foreign (Exn ''Error'' ''boom''))"
    by (simp add: validateProject_def)
  from unregistered rejected accepted thrown show ?thesis
    by blast
qed

text \<open>
  C9. readProjectFile and readCollectionFile without options, or with options that leave
  the format out, do what they do when \<open>DEFAULT_FORMAT\<close> is passed as the format: the
  same result and the same console, for every file name.
\<close>

theorem readFile_default_format:
  "readProjectFile env filename None console
     = readProjectFile env filename (Some \<lparr>format = Some (DEFAULT_FORMAT env)\<rparr>) console
   \<and> readProjectFile env filename (Some \<lparr>format = None\<rparr>) console
     = readProjectFile env filename (Some \<lparr>format = Some (DEFAULT_FORMAT env)\<rparr>) console
   \<and> readCollectionFile env filename None console
     = readCollectionFile env filename (Some \<lparr>format = Some (DEFAULT_FORMAT env)\<rparr>) console
   \<and> readCollectionFile env filename (Some \<lparr>format = None\<rparr>) console
     = readCollectionFile env filename (Some \<lparr>format = Some (DEFAULT_FORMAT env)\<rparr>) console"
  by (simp add: readProjectFile_def readCollectionFile_def nullish_or_def opts_format_def)

theorem readFile_default_format_witness:
  "readProjectFile sample_env ''project.yaml'' None []
     = readProjectFile sample_env ''project.yaml'' (Some \<lparr>format = Some ''YAML''\<rparr>) []
   \<and> readProjectFile sample_env ''project.yaml'' None [] = ([], Inr named_project)"
  using readFile_default_format [of sample_env "''project.yaml''" "[]"]
  by (simp add: sample_DEFAULT_FORMAT sample_readProjectFile_yaml)

text \<open>
  C10. The schema names of the public functions end in \<open>.json\<close>: for a value that fails
  project validation safeCastProject throws an \<open>Error\<close> with the message
  \<open>Invalid project.json\<close>, and for one that fails collection validation
  safeCastCollection throws an \<open>Error\<close> with the message \<open>Invalid collection.json\<close>.
\<close>

theorem safeCast_invalid_message:
  "(\<forall>r. validateProject env obj = Inr r \<and> \<not> valid r \<longrightarrow>
      snd (safeCastProject env obj console) = Inl (Error ''Invalid project.json''))
   \<and> (\<forall>r. validateCollection env obj = Inr r \<and> \<not> valid r \<longrightarrow>
      snd (safeCastCollection env obj console) = Inl (Error ''Invalid collection.json''))
   \<and> PROJECT_SCHEMA = ''project.json'' \<and> COLLECTION_SCHEMA = ''collection.json''"
  by (simp add: safeCastProject_def safeCastCollection_def safeCastObject_def
      validateProject_def validateCollection_def PROJECT_SCHEMA_def COLLECTION_SCHEMA_def)

theorem safeCast_invalid_message_witness:
  "(\<exists>r. validateProject sample_env JNull = Inr r \<and> \<not> valid r)
   \<and> snd (safeCastProject sample_env JNull []) = Inl (Error ''Invalid project.json'')
   \<and> (\<exists>r. validateCollection sample_env JNull = Inr r \<and> \<not> valid r)
   \<and> snd (safeCastCollection sample_env JNull []) = Inl (Error ''Invalid collection.json'')"
  using safeCast_invalid_message [of sample_env JNull "[]"]
    sample_JNull_project sample_JNull_collection
  by (simp add: validateProject_def validateCollection_def)

end
